theory Spec2Isabelle
  imports Complex_Main "HOL-Library.Multiset"
begin

section \<open>The session log of \<^verbatim>\<open>sessions.py\<close> (class \<^verbatim>\<open>SessionTracer\<close>)\<close>

text \<open>
  \<^verbatim>\<open>SessionTracer\<close> keeps a log of queries in two SQLite tables of the host database and
  talks to three collaborators that are not part of the module: the SQLite connection
  \<^verbatim>\<open>bdb.sqlite3\<close>, Python's \<^verbatim>\<open>json.dumps\<close> and \<^verbatim>\<open>requests.post\<close>. The embedding
  below makes the state explicit: the database is a record of its tables, the tracer a
  record of its attributes, the diagnostic stream a list of printed lines, and the network
  a list of POST requests. Every SQL statement of the module is modelled by its effect when
  SQLite executes it successfully; failures of the storage itself (a closed connection, a
  full disk, the exhaustion of the 64-bit rowid space) are outside the model.
\<close>

subsection \<open>Python values and \<^verbatim>\<open>json.dumps\<close>\<close>

text \<open>
  The values that \<^verbatim>\<open>json.dumps\<close> serialises: \<^verbatim>\<open>None\<close>, booleans, integers, floats,
  strings, sequences (a tuple and a list are encoded alike) and dictionaries with string
  keys, in iteration order. A float is represented by the rational number it denotes
  (\<^verbatim>\<open>time.time()\<close> returns a finite float; NaN and the infinities are not represented).
\<close>

datatype pyval =
    PyNone
  | PyBool bool
  | PyInt int
  | PyFloat rat
  | PyStr string
  | PyList "pyval list"
  | PyDict "(string \<times> pyval) list"

text \<open>
  The two leaf encoders of the \<^verbatim>\<open>json\<close> library that depend on floating point and on
  Unicode: \<^verbatim>\<open>float.__repr__\<close> and \<^verbatim>\<open>encode_basestring_ascii\<close> (which quotes and escapes a
  string). They are library code and are taken as parameters.
\<close>

record json_lib =
  float_repr :: "rat \<Rightarrow> string"
  encode_basestring_ascii :: "string \<Rightarrow> string"

text \<open>\<^verbatim>\<open>sep.join(xs)\<close>\<close>

fun join :: "string \<Rightarrow> string list \<Rightarrow> string" where
  "join sep [] = []"
| "join sep [x] = x"
| "join sep (x # y # ys) = x @ sep @ join sep (y # ys)"

text \<open>\<^verbatim>\<open>str(n)\<close> and \<^verbatim>\<open>'%d' % n\<close> for an integer: decimal digits, with a minus sign.\<close>

fun str_nat :: "nat \<Rightarrow> string" where
  "str_nat n = (if n < 10 then [''0123456789'' ! n]
                else str_nat (n div 10) @ [''0123456789'' ! (n mod 10)])"

definition str_int :: "int \<Rightarrow> string" where
  "str_int i = (if i < 0 then ''-'' @ str_nat (nat (- i)) else str_nat (nat i))"

text \<open>
  \<^verbatim>\<open>json.dumps(v)\<close> with its default arguments: item separator \<^verbatim>\<open>', '\<close>, key separator
  \<^verbatim>\<open>': '\<close>, no indentation.
\<close>

fun json_dumps :: "json_lib \<Rightarrow> pyval \<Rightarrow> string" where
  "json_dumps J PyNone = ''null''"
| "json_dumps J (PyBool b) = (if b then ''true'' else ''false'')"
| "json_dumps J (PyInt i) = str_int i"
| "json_dumps J (PyFloat f) = float_repr J f"
| "json_dumps J (PyStr s) = encode_basestring_ascii J s"
| "json_dumps J (PyList vs) = ''['' @ join '', '' (map (json_dumps J) vs) @ '']''"
| "json_dumps J (PyDict kvs) =
     ''{'' @ join '', '' (map (\<lambda>kv. encode_basestring_ascii J (fst kv) @ '': '' @ json_dumps J (snd kv)) kvs)
       @ ''}''"

subsection \<open>The storage: two tables and SQLite's sequence table\<close>

text \<open>
  Modelled from the spec: the schema of the two tables, which is created outside
  \<^verbatim>\<open>sessions.py\<close>. Section 6 of the specification gives
  \<^verbatim>\<open>session(id INTEGER PRIMARY KEY AUTOINCREMENT, ...)\<close> and
  \<^verbatim>\<open>session_entries(id INTEGER PRIMARY KEY AUTOINCREMENT, session_id INTEGER, time REAL,
  type TEXT, data TEXT, completed INTEGER DEFAULT 0)\<close>. The module writes no column of a
  session row, so a session row is represented by its id. The column \<^verbatim>\<open>completed\<close> is an
  SQL integer: 0 is "not completed", 1 is "completed". A table is the list of its rows in
  rowid order.
\<close>

record session =
  s_id :: int

record entry =
  e_id :: int
  e_session_id :: int
  e_time :: rat
  e_type :: string
  e_data :: string
  e_completed :: int

text \<open>
  The database as the module sees it: the two tables, SQLite's internal table
  \<^verbatim>\<open>sqlite_sequence\<close> (table name to the largest rowid handed out so far, for AUTOINCREMENT
  tables) and the connection's \<^verbatim>\<open>last_insert_rowid()\<close>.
\<close>

record db =
  bayesdb_session :: "session list"
  bayesdb_session_entries :: "entry list"
  sqlite_sequence :: "string \<rightharpoonup> int"
  last_insert_rowid :: int

text \<open>
  The rowid SQLite chooses for a new row of an AUTOINCREMENT table: one more than the
  largest rowid in the table (1 for an empty table), and at least one more than the
  table's entry in \<^verbatim>\<open>sqlite_sequence\<close> (0 when there is none).
\<close>

definition new_rowid :: "int list \<Rightarrow> int option \<Rightarrow> int" where
  "new_rowid ids seq =
     max (case ids of [] \<Rightarrow> 1 | i # is \<Rightarrow> fold max is i + 1)
         (case seq of None \<Rightarrow> 0 + 1 | Some s \<Rightarrow> s + 1)"

text \<open>\<^verbatim>\<open>INSERT INTO bayesdb_session DEFAULT VALUES;\<close>\<close>

definition insert_session :: "db \<Rightarrow> db" where
  "insert_session d =
     (let i = new_rowid (map s_id (bayesdb_session d)) (sqlite_sequence d ''bayesdb_session'')
      in d\<lparr>bayesdb_session := bayesdb_session d @ [\<lparr>s_id = i\<rparr>],
           sqlite_sequence := (sqlite_sequence d)(''bayesdb_session'' \<mapsto> i),
           last_insert_rowid := i\<rparr>)"

text \<open>
  \<^verbatim>\<open>INSERT INTO bayesdb_session_entries (session_id, time, type, data) VALUES (?,?,?,?);\<close>
  The column \<^verbatim>\<open>completed\<close> is not named and takes its default.
\<close>

definition insert_entry :: "db \<Rightarrow> int \<Rightarrow> rat \<Rightarrow> string \<Rightarrow> string \<Rightarrow> db" where
  "insert_entry d sid t ty dat =
     (let i = new_rowid (map e_id (bayesdb_session_entries d))
                (sqlite_sequence d ''bayesdb_session_entries'')
      in d\<lparr>bayesdb_session_entries := bayesdb_session_entries d @
             [\<lparr>e_id = i, e_session_id = sid, e_time = t, e_type = ty, e_data = dat,
               e_completed = 0\<rparr>],
           sqlite_sequence := (sqlite_sequence d)(''bayesdb_session_entries'' \<mapsto> i),
           last_insert_rowid := i\<rparr>)"

text \<open>\<^verbatim>\<open>UPDATE bayesdb_session_entries SET completed=1 WHERE id=?;\<close>\<close>

definition update_completed :: "db \<Rightarrow> int \<Rightarrow> db" where
  "update_completed d entry_id =
     d\<lparr>bayesdb_session_entries :=
         map (\<lambda>e. if e_id e = entry_id then e\<lparr>e_completed := 1\<rparr> else e)
           (bayesdb_session_entries d)\<rparr>"

text \<open>
  \<^verbatim>\<open>SELECT COUNT(*) FROM bayesdb_session_entries WHERE completed=0 AND session_id=?;\<close>
\<close>

definition count_uncompleted :: "db \<Rightarrow> int \<Rightarrow> int" where
  "count_uncompleted d sid =
     int (length (filter (\<lambda>e. e_completed e = 0 \<and> e_session_id e = sid)
                    (bayesdb_session_entries d)))"

text \<open>
  \<^verbatim>\<open>SELECT * FROM bayesdb_session_entries WHERE session_id == ? ORDER BY time DESC\<close>.
  SQL leaves the order of rows with equal \<^verbatim>\<open>time\<close> open; the model keeps them in rowid
  order (a stable sort on the negated time).
\<close>

definition select_session_entries :: "db \<Rightarrow> int \<Rightarrow> entry list" where
  "select_session_entries d sid =
     sort_key (\<lambda>e. - e_time e) (filter (\<lambda>e. e_session_id e = sid) (bayesdb_session_entries d))"

text \<open>
  \<^verbatim>\<open>DELETE FROM bayesdb_session_entries; DELETE FROM bayesdb_session;
  DELETE FROM sqlite_sequence WHERE name="bayesdb_session" OR name="bayesdb_session_entries";\<close>
\<close>

definition delete_all :: "db \<Rightarrow> db" where
  "delete_all d =
     d\<lparr>bayesdb_session_entries := [],
       bayesdb_session := [],
       sqlite_sequence := (sqlite_sequence d)(''bayesdb_session'' := None,
                                              ''bayesdb_session_entries'' := None)\<rparr>"

text \<open>
  A row as the cursor of Python's \<^verbatim>\<open>sqlite3\<close> yields it: the tuple of its column values in
  the order of the schema (the module itself reads rows by position, \<^verbatim>\<open>curs.next()[0]\<close>).
\<close>

definition row_tuple :: "entry \<Rightarrow> pyval" where
  "row_tuple e =
     PyList [PyInt (e_id e), PyInt (e_session_id e), PyFloat (e_time e), PyStr (e_type e),
             PyStr (e_data e), PyInt (e_completed e)]"

subsection \<open>The tracer\<close>

text \<open>
  The attributes of a \<^verbatim>\<open>SessionTracer\<close>: the database behind \<^verbatim>\<open>self.bdb\<close>,
  \<^verbatim>\<open>self.session_id\<close>, and the lines printed so far to \<^verbatim>\<open>self.out\<close>.
\<close>

record tracer =
  bdb :: db
  session_id :: int
  out :: "string list"

datatype error = ValueError string | RequestException string

text \<open>
  The private methods keep their names without the leading underscore: \<^verbatim>\<open>_print\<close> is
  \<open>print\<close>, \<^verbatim>\<open>_trace\<close> is \<open>trace\<close>, and so on.
\<close>

definition print :: "tracer \<Rightarrow> string \<Rightarrow> tracer" where
  "print tr content = tr\<lparr>out := out tr @ [content]\<rparr>"

definition start_new_session :: "tracer \<Rightarrow> tracer" where
  "start_new_session tr =
     (let d = insert_session (bdb tr)
      in tr\<lparr>bdb := d, session_id := last_insert_rowid d\<rparr>)"

definition finish :: "tracer \<Rightarrow> int \<Rightarrow> tracer" where
  "finish tr entry_id = tr\<lparr>bdb := update_completed (bdb tr) entry_id\<rparr>"

text \<open>
  \<^verbatim>\<open>_trace\<close> takes the clock reading \<^verbatim>\<open>time.time()\<close> as its argument \<open>t\<close>. It returns the
  new state and the closure \<^verbatim>\<open>lambda : self._finish(entry_id)\<close>, which acts on the state
  of the tracer at the moment it is called.
\<close>

definition trace ::
  "json_lib \<Rightarrow> tracer \<Rightarrow> string \<Rightarrow> string \<Rightarrow> pyval \<Rightarrow> rat \<Rightarrow> tracer \<times> (tracer \<Rightarrow> tracer)" where
  "trace J tr ty query bindings t =
     (let dat = query @ json_dumps J bindings;
          d = insert_entry (bdb tr) (session_id tr) t ty dat;
          entry_id = last_insert_rowid d
      in (tr\<lparr>bdb := d\<rparr>, \<lambda>s. finish s entry_id))"

definition bql_trace ::
  "json_lib \<Rightarrow> tracer \<Rightarrow> string \<Rightarrow> pyval \<Rightarrow> rat \<Rightarrow> tracer \<times> (tracer \<Rightarrow> tracer)" where
  "bql_trace J tr query bindings t = trace J tr ''bql'' query bindings t"

definition sql_trace ::
  "json_lib \<Rightarrow> tracer \<Rightarrow> string \<Rightarrow> pyval \<Rightarrow> rat \<Rightarrow> tracer \<times> (tracer \<Rightarrow> tracer)" where
  "sql_trace J tr query bindings t = trace J tr ''sql'' query bindings t"

text \<open>
  \<^verbatim>\<open>_check_unfinished_entries\<close> returns the count; the warning is one printed line.
\<close>

definition check_unfinished_entries :: "tracer \<Rightarrow> tracer \<times> int" where
  "check_unfinished_entries tr =
     (let uncompleted_entries = count_uncompleted (bdb tr) (session_id tr - 1)
      in (if uncompleted_entries > 0
          then print tr (''WARNING: Previous session contains uncompleted entries. '' @
                 ''This may be due to a bad termination or crash of the '' @
                 ''previous session. Consider uploading the session with send_session_data().'')
          else tr,
          uncompleted_entries))"

text \<open>
  \<^verbatim>\<open>__init__\<close>, for a tracer built on the database \<open>d\<close>. The attribute \<^verbatim>\<open>session_id\<close> does not
  exist before \<^verbatim>\<open>_start_new_session\<close> assigns it; the record holds 0 until then. The two
  calls \<^verbatim>\<open>bdb.trace\<close> and \<^verbatim>\<open>bdb.sql_trace\<close> of \<^verbatim>\<open>start_saving_sessions\<close> hand the callbacks
  \<open>bql_trace\<close> and \<open>sql_trace\<close> to the engine; they touch the engine's table of hooks,
  which is no part of the log, and the SQL that the tracer issues itself goes to
  \<^verbatim>\<open>bdb.sqlite3\<close> directly.
\<close>

definition SessionTracer_init :: "db \<Rightarrow> tracer" where
  "SessionTracer_init d =
     (let tr = \<lparr>bdb = d, session_id = 0, out = []\<rparr>;
          tr = start_new_session tr
      in fst (check_unfinished_entries tr))"

definition clear_all_sessions :: "tracer \<Rightarrow> tracer" where
  "clear_all_sessions tr = start_new_session (tr\<lparr>bdb := delete_all (bdb tr)\<rparr>)"

text \<open>\<^verbatim>\<open>SELECT * FROM bayesdb_session;\<close>\<close>

definition list_sessions :: "tracer \<Rightarrow> session list" where
  "list_sessions tr = bayesdb_session (bdb tr)"

definition current_session_id :: "tracer \<Rightarrow> int" where
  "current_session_id tr = session_id tr"

definition dump_session_as_json :: "json_lib \<Rightarrow> tracer \<Rightarrow> int \<Rightarrow> error + string" where
  "dump_session_as_json J tr sid =
     (if sid > session_id tr \<or> sid < 1
      then Inl (ValueError (''No such session ('' @ str_int sid @ '')''))
      else Inr (json_dumps J (PyList (map row_tuple (select_session_entries (bdb tr) sid)))))"

definition dump_current_session_as_json :: "json_lib \<Rightarrow> tracer \<Rightarrow> error + string" where
  "dump_current_session_as_json J tr = dump_session_as_json J tr (session_id tr)"

subsection \<open>The upload\<close>

text \<open>
  A request made by \<^verbatim>\<open>requests.post(url, data=...)\<close> is the URL and the form fields. The
  remote side is a parameter: given the requests made so far and the next one, it either
  answers with the text of a response or the call raises (a transport error). A request
  that raises has still been made.
\<close>

type_synonym request = "string \<times> (string \<times> string) list"

type_synonym network = "request list \<Rightarrow> request \<Rightarrow> error + string"

definition probcomp_url :: string where
  "probcomp_url = ''http://probcomp.csail.mit.edu/bayesdb/save_sessions.cgi''"

text \<open>
  The body of the \<^verbatim>\<open>for\<close> loop of \<^verbatim>\<open>send_session_data\<close>, over the ids still to visit. The
  state is the tracer and the requests made so far; an exception ends the loop and keeps
  what was printed and posted before it.
\<close>

fun send_loop ::
  "json_lib \<Rightarrow> network \<Rightarrow> tracer \<times> request list \<Rightarrow> int list
     \<Rightarrow> (tracer \<times> request list) \<times> (error + unit)" where
  "send_loop J net (tr, posted) [] = ((tr, posted), Inr ())"
| "send_loop J net (tr, posted) (i # ids) =
     (let tr1 = print tr (''Sending session '' @ str_int i @ '' to '' @ probcomp_url @ '' ...'')
      in case dump_session_as_json J tr1 i of
           Inl e \<Rightarrow> ((tr1, posted), Inl e)
         | Inr json_string \<Rightarrow>
             (let tr2 = print tr1 json_string;
                  req = (probcomp_url, [(''session_json'', json_string)])
              in case net posted req of
                   Inl e \<Rightarrow> ((tr2, posted @ [req]), Inl e)
                 | Inr text \<Rightarrow>
                     send_loop J net (print tr2 (''Response: '' @ text), posted @ [req]) ids))"

text \<open>\<^verbatim>\<open>range(1, self.session_id+1)\<close> is the list \<open>[1..session_id]\<close>.\<close>

definition send_session_data ::
  "json_lib \<Rightarrow> network \<Rightarrow> tracer \<times> request list \<Rightarrow> (tracer \<times> request list) \<times> (error + unit)" where
  "send_session_data J net w = send_loop J net w [1..session_id (fst w)]"

subsection \<open>Example values\<close>

text \<open>
  A \<^verbatim>\<open>json\<close> library for the examples. \<open>float_repr_ex\<close> prints a float of integral value
  as Python does for magnitudes below \<open>10^16\<close> (\<^verbatim>\<open>5.0\<close> for 5); the examples use no other
  floats, and any other value is written as a fraction, which is not Python's output.
  \<open>encode_basestring_ascii_ex\<close> quotes a string and escapes the double quote and the
  backslash, which is what Python does for printable ASCII text.
\<close>

definition float_repr_ex :: "rat \<Rightarrow> string" where
  "float_repr_ex r =
     (case quotient_of r of
        (n, d) \<Rightarrow> if d = 1 then str_int n @ ''.0'' else str_int n @ ''/'' @ str_int d)"

definition encode_basestring_ascii_ex :: "string \<Rightarrow> string" where
  "encode_basestring_ascii_ex s =
     [CHR 0x22] @
     concat (map (\<lambda>c. if c = CHR 0x22 then [CHR 0x5C, CHR 0x22]
                      else if c = CHR 0x5C then [CHR 0x5C, CHR 0x5C] else [c]) s) @
     [CHR 0x22]"

definition J_ex :: json_lib where
  "J_ex = \<lparr>float_repr = float_repr_ex,
           encode_basestring_ascii = encode_basestring_ascii_ex\<rparr>"

text \<open>An empty database, and the tracer built on it.\<close>

definition db_ex :: db where
  "db_ex = \<lparr>bayesdb_session = [], bayesdb_session_entries = [],
            sqlite_sequence = Map.empty, last_insert_rowid = 0\<rparr>"

definition tr_ex :: tracer where
  "tr_ex = \<lparr>bdb = db_ex\<lparr>bayesdb_session := [\<lparr>s_id = 1\<rparr>],
                         sqlite_sequence := [''bayesdb_session'' \<mapsto> 1],
                         last_insert_rowid := 1\<rparr>,
            session_id = 1, out = []\<rparr>"

text \<open>The tracer \<open>tr_ex\<close> after one recorded query, and after a second one.\<close>

definition tr_one :: tracer where
  "tr_one = fst (bql_trace J_ex tr_ex ''SELECT 1;'' (PyDict []) 5)"

definition tr_two :: tracer where
  "tr_two = fst (sql_trace J_ex tr_one ''SELECT 2;'' (PyList [PyInt 7]) 7)"

text \<open>
  The completion callback of the first recorded query, and the state in which the log was
  cleared after that query and a second query recorded. The completion callback of the
  second query of \<open>tr_two\<close>, and \<open>tr_two\<close> after a third query that has completed.
\<close>

definition cb_one :: "tracer \<Rightarrow> tracer" where
  "cb_one = snd (bql_trace J_ex tr_ex ''SELECT 1;'' (PyDict []) 5)"

definition tr_reused :: tracer where
  "tr_reused = fst (sql_trace J_ex (clear_all_sessions tr_one) ''SELECT 2;'' (PyDict []) 7)"

definition cb_two :: "tracer \<Rightarrow> tracer" where
  "cb_two = snd (sql_trace J_ex tr_one ''SELECT 2;'' (PyList [PyInt 7]) 7)"

definition tr_three :: tracer where
  "tr_three = finish (fst (bql_trace J_ex tr_two ''SELECT 3;'' (PyDict []) 9)) 3"

subsection \<open>States reached without clearing the log\<close>

text \<open>
  The states a tracer reaches from a state \<open>s0\<close> by the operations that the engine and the
  tracer perform while queries run: recording a query, completing an entry, printing.
  \<^verbatim>\<open>clear_all_sessions\<close> is not among them.
\<close>

inductive later_state :: "tracer \<Rightarrow> tracer \<Rightarrow> bool" for s0 :: tracer where
  here: "later_state s0 s0"
| after_trace: "later_state s0 s \<Longrightarrow> later_state s0 (fst (trace J s ty q b t))"
| after_finish: "later_state s0 s \<Longrightarrow> later_state s0 (finish s i)"
| after_print: "later_state s0 s \<Longrightarrow> later_state s0 (print s x)"

subsection \<open>Well-formed logs\<close>

text \<open>
  Two facts that hold of every log the module builds, and are used as hypotheses where a
  property talks about a database the tracer did not create itself: session ids are
  positive, and every entry carries the id of a session of the session table (section 3
  of the specification: every entry belongs to exactly one session). A tracer is
  well-formed when its database is and its current session is a row of the session table.
\<close>

definition db_wf :: "db \<Rightarrow> bool" where
  "db_wf d \<longleftrightarrow>
     (\<forall>s\<in>set (bayesdb_session d). 1 \<le> s_id s) \<and>
     (\<forall>e\<in>set (bayesdb_session_entries d). e_session_id e \<in> s_id ` set (bayesdb_session d))"

definition tracer_wf :: "tracer \<Rightarrow> bool" where
  "tracer_wf tr \<longleftrightarrow>
     db_wf (bdb tr) \<and> session_id tr \<in> s_id ` set (bayesdb_session (bdb tr))"

section \<open>Properties\<close>

subsection \<open>The example states\<close>

lemma tr_one_eq:
  "tr_one = \<lparr>bdb = \<lparr>bayesdb_session = [\<lparr>s_id = 1\<rparr>],
                     bayesdb_session_entries =
                       [\<lparr>e_id = 1, e_session_id = 1, e_time = 5, e_type = ''bql'',
                         e_data = ''SELECT 1;{}'', e_completed = 0\<rparr>],
                     sqlite_sequence = [''bayesdb_session'' \<mapsto> 1, ''bayesdb_session_entries'' \<mapsto> 1],
                     last_insert_rowid = 1\<rparr>,
             session_id = 1, out = []\<rparr>"
  by (simp add: tr_one_def bql_trace_def trace_def insert_entry_def new_rowid_def tr_ex_def
        db_ex_def J_ex_def Let_def)

lemma tr_two_entries:
  "bayesdb_session_entries (bdb tr_two) =
     [\<lparr>e_id = 1, e_session_id = 1, e_time = 5, e_type = ''bql'',
       e_data = ''SELECT 1;{}'', e_completed = 0\<rparr>,
      \<lparr>e_id = 2, e_session_id = 1, e_time = 7, e_type = ''sql'',
       e_data = ''SELECT 2;[7]'', e_completed = 0\<rparr>]
   \<and> session_id tr_two = 1"
  by (simp add: tr_two_def tr_one_eq sql_trace_def trace_def insert_entry_def new_rowid_def
        J_ex_def str_int_def Let_def)

text \<open>The example tracer is the one that construction on the empty database gives.\<close>

lemma tr_ex_init: "tr_ex = SessionTracer_init db_ex"
  by (simp add: tr_ex_def db_ex_def SessionTracer_init_def start_new_session_def
        insert_session_def check_unfinished_entries_def count_uncompleted_def new_rowid_def
        Let_def)

subsection \<open>Fresh row ids\<close>

lemma fold_max_ge: "(a::int) \<le> fold max xs a \<and> (\<forall>x\<in>set xs. x \<le> fold max xs a)"
proof (induction xs arbitrary: a)
  case Nil
  show ?case by simp
next
  case (Cons x xs)
  have a: "max x a \<le> fold max xs (max x a)" using Cons.IH by blast
  have b: "\<forall>y\<in>set xs. y \<le> fold max xs (max x a)" using Cons.IH by blast
  from a b show ?case by auto
qed

lemma new_rowid_fresh: "i \<in> set ids \<Longrightarrow> i < new_rowid ids seq"
proof (cases ids)
  case Nil
  assume "i \<in> set ids"
  with Nil show ?thesis by simp
next
  case (Cons j js)
  assume mem: "i \<in> set ids"
  have "i \<le> fold max js j" using mem Cons fold_max_ge [of j js] by auto
  then show ?thesis by (simp add: new_rowid_def Cons)
qed

lemma trace_state:
  "fst (trace J tr ty q b t) = tr\<lparr>bdb := insert_entry (bdb tr) (session_id tr) t ty (q @ json_dumps J b)\<rparr>"
  by (simp add: trace_def Let_def)

lemma trace_callback:
  "snd (trace J tr ty q b t) =
     (\<lambda>s. finish s (new_rowid (map e_id (bayesdb_session_entries (bdb tr)))
                      (sqlite_sequence (bdb tr) ''bayesdb_session_entries'')))"
  by (simp add: trace_def insert_entry_def Let_def)

lemma insert_entry_entries:
  "bayesdb_session_entries (insert_entry d sid t ty dat) =
     bayesdb_session_entries d @
       [\<lparr>e_id = new_rowid (map e_id (bayesdb_session_entries d))
                  (sqlite_sequence d ''bayesdb_session_entries''),
         e_session_id = sid, e_time = t, e_type = ty, e_data = dat, e_completed = 0\<rparr>]"
  by (simp add: insert_entry_def Let_def)

lemma insert_entry_sessions:
  "bayesdb_session (insert_entry d sid t ty dat) = bayesdb_session d"
  by (simp add: insert_entry_def Let_def)

subsection \<open>Recording a query\<close>

text \<open>
  C1. For every query text \<open>q\<close>, bindings \<open>b\<close> and clock reading \<open>t\<close>, either trace
  callback (\<open>bql_trace\<close>, \<open>sql_trace\<close>) appends exactly one row to the entry table. The
  row has a fresh id (the one \<^verbatim>\<open>last_insert_rowid()\<close> reports), the tracer's session id,
  the callback's type tag, \<open>completed = 0\<close>, and as \<open>data\<close> the query text followed by the
  JSON encoding of the bindings. For the query \<^verbatim>\<open>SELECT 1;\<close> and the empty dictionary of
  bindings the data is \<^verbatim>\<open>SELECT 1;{}\<close>.
\<close>

theorem trace_inserts_entry:
  "bayesdb_session_entries (bdb (fst (bql_trace J tr q b t))) =
     bayesdb_session_entries (bdb tr) @
       [\<lparr>e_id = last_insert_rowid (bdb (fst (bql_trace J tr q b t))),
         e_session_id = session_id tr, e_time = t, e_type = ''bql'',
         e_data = q @ json_dumps J b, e_completed = 0\<rparr>]
   \<and> bayesdb_session_entries (bdb (fst (sql_trace J tr q b t))) =
     bayesdb_session_entries (bdb tr) @
       [\<lparr>e_id = last_insert_rowid (bdb (fst (sql_trace J tr q b t))),
         e_session_id = session_id tr, e_time = t, e_type = ''sql'',
         e_data = q @ json_dumps J b, e_completed = 0\<rparr>]
   \<and> last_insert_rowid (bdb (fst (bql_trace J tr q b t))) \<notin> e_id ` set (bayesdb_session_entries (bdb tr))
   \<and> last_insert_rowid (bdb (fst (sql_trace J tr q b t))) \<notin> e_id ` set (bayesdb_session_entries (bdb tr))
   \<and> e_data (last (bayesdb_session_entries (bdb (fst (bql_trace J tr ''SELECT 1;'' (PyDict []) t)))))
       = ''SELECT 1;{}''
   \<and> e_data (last (bayesdb_session_entries (bdb (fst (sql_trace J tr ''SELECT 1;'' (PyDict []) t)))))
       = ''SELECT 1;{}''"
proof -
  have fresh: "new_rowid (map e_id (bayesdb_session_entries (bdb tr))) s
                 \<notin> e_id ` set (bayesdb_session_entries (bdb tr))" for s
    using new_rowid_fresh [of _ "map e_id (bayesdb_session_entries (bdb tr))" s] by fastforce
  have rid: "last_insert_rowid (insert_entry d sid t' ty dat) =
               new_rowid (map e_id (bayesdb_session_entries d))
                  (sqlite_sequence d ''bayesdb_session_entries'')" for d sid t' ty dat
    by (simp add: insert_entry_def Let_def)
  show ?thesis
    by (simp add: bql_trace_def sql_trace_def trace_state insert_entry_entries rid fresh)
qed

theorem trace_inserts_entry_witness:
  "bayesdb_session_entries (bdb (fst (bql_trace J_ex tr_ex ''SELECT 1;'' (PyDict []) 5))) =
     [\<lparr>e_id = 1, e_session_id = 1, e_time = 5, e_type = ''bql'', e_data = ''SELECT 1;{}'',
       e_completed = 0\<rparr>]
   \<and> bayesdb_session_entries (bdb (fst (sql_trace J_ex tr_ex ''SELECT 2;'' (PyList [PyInt 7]) 5))) =
     [\<lparr>e_id = 1, e_session_id = 1, e_time = 5, e_type = ''sql'', e_data = ''SELECT 2;[7]'',
       e_completed = 0\<rparr>]"
  using trace_inserts_entry [of J_ex tr_ex "''SELECT 1;''" "PyDict []" 5]
        trace_inserts_entry [of J_ex tr_ex "''SELECT 2;''" "PyList [PyInt 7]" 5]
  by (simp add: bql_trace_def sql_trace_def trace_def insert_entry_def new_rowid_def tr_ex_def
        db_ex_def J_ex_def str_int_def Let_def)

subsection \<open>The completion callback\<close>

lemma finish_state:
  "finish s i = s\<lparr>bdb := (bdb s)\<lparr>bayesdb_session_entries :=
       map (\<lambda>e. if e_id e = i then e\<lparr>e_completed := 1\<rparr> else e) (bayesdb_session_entries (bdb s))\<rparr>\<rparr>"
  by (simp add: finish_def update_completed_def)

lemma map_mark_other:
  "\<forall>e\<in>set es. e_id e \<noteq> i \<Longrightarrow> map (\<lambda>e. if e_id e = i then e\<lparr>e_completed := 1\<rparr> else e) es = es"
  by (induction es) auto

text \<open>
  C9. The completion callback is idempotent: marking an entry completed twice gives the
  state that marking it once gives, and so does calling the callback returned by a trace
  callback any number of times greater than zero.
\<close>

theorem finish_idempotent:
  "finish (finish s i) i = finish s i
   \<and> (snd (trace J tr ty q b t) ^^ Suc n) s = snd (trace J tr ty q b t) s"
proof -
  have once: "finish (finish s' i') i' = finish s' i'" for s' i'
    by (simp add: finish_def update_completed_def comp_def)
  have many: "((\<lambda>s. finish s i') ^^ Suc n) s' = finish s' i'" for i' s'
  proof (induction n)
    case 0
    show ?case by simp
  next
    case (Suc n)
    have "((\<lambda>s. finish s i') ^^ Suc (Suc n)) s' = finish (((\<lambda>s. finish s i') ^^ Suc n) s') i'"
      by simp
    also have "\<dots> = finish (finish s' i') i'" using Suc.IH by simp
    also have "\<dots> = finish s' i'" by (rule once)
    finally show ?case .
  qed
  show ?thesis using once many by (simp only: trace_callback) 
qed

theorem finish_idempotent_witness:
  "bayesdb_session_entries (bdb (finish (finish (fst (trace J_ex tr_ex ''sql'' ''SELECT 1;'' (PyDict []) 5)) 1) 1)) =
     [\<lparr>e_id = 1, e_session_id = 1, e_time = 5, e_type = ''sql'', e_data = ''SELECT 1;{}'',
       e_completed = 1\<rparr>]"
  using finish_idempotent [of "fst (trace J_ex tr_ex ''sql'' ''SELECT 1;'' (PyDict []) 5)" 1]
  by (simp add: finish_state trace_state insert_entry_entries new_rowid_def tr_ex_def db_ex_def
        J_ex_def)

subsection \<open>Dumping a session\<close>

text \<open>
  C3. \<open>dump_session_as_json\<close> raises its range error (a \<^verbatim>\<open>ValueError\<close> in the code) exactly
  when the session id is less than 1 or greater than the current session id, and returns
  a string exactly when the id is in range. In particular the ids 0 and
  \<open>current_session_id + 1\<close> raise.
\<close>

theorem dump_out_of_range_iff:
  "((\<exists>msg. dump_session_as_json J tr sid = Inl (ValueError msg)) \<longleftrightarrow> sid < 1 \<or> sid > current_session_id tr)
   \<and> ((\<exists>js. dump_session_as_json J tr sid = Inr js) \<longleftrightarrow> 1 \<le> sid \<and> sid \<le> current_session_id tr)
   \<and> dump_session_as_json J tr 0 = Inl (ValueError ''No such session (0)'')
   \<and> (\<exists>msg. dump_session_as_json J tr (current_session_id tr + 1) = Inl (ValueError msg))"
  by (auto simp: dump_session_as_json_def current_session_id_def str_int_def)

theorem dump_out_of_range_iff_witness:
  "dump_session_as_json J_ex tr_ex 0 = Inl (ValueError ''No such session (0)'')
   \<and> dump_session_as_json J_ex tr_ex 2 = Inl (ValueError ''No such session (2)'')
   \<and> dump_session_as_json J_ex tr_ex 1 = Inr ''[]''"
  using dump_out_of_range_iff [of J_ex tr_ex 1]
  by (simp add: dump_session_as_json_def select_session_entries_def str_int_def tr_ex_def
        db_ex_def)

lemma select_session_entries_sorted:
  "sorted_wrt (\<lambda>a b. e_time a \<ge> e_time b) (select_session_entries d sid)"
proof -
  have "sorted (map (\<lambda>e. - e_time e) (select_session_entries d sid))"
    unfolding select_session_entries_def by (rule sorted_sort_key)
  then show ?thesis by (simp add: sorted_map)
qed

lemma select_session_entries_mset:
  "mset (select_session_entries d sid) =
     {#e \<in># mset (bayesdb_session_entries d). e_session_id e = sid#}"
  by (simp add: select_session_entries_def)

lemma dump_in_range:
  "1 \<le> sid \<Longrightarrow> sid \<le> session_id tr \<Longrightarrow>
   dump_session_as_json J tr sid =
     Inr (json_dumps J (PyList (map row_tuple (select_session_entries (bdb tr) sid))))"
  by (simp add: dump_session_as_json_def)

text \<open>
  C4. For a session id between 1 and the current session id, the string returned by
  \<open>dump_session_as_json\<close> is the JSON encoding of the list of that session's rows, each
  row once, in non-increasing order of their \<open>time\<close> column (most recent first).
\<close>

theorem dump_ordered_by_time_desc:
  assumes "1 \<le> sid" and "sid \<le> current_session_id tr"
  shows "\<exists>rows. dump_session_as_json J tr sid = Inr (json_dumps J (PyList (map row_tuple rows)))
           \<and> mset rows = {#e \<in># mset (bayesdb_session_entries (bdb tr)). e_session_id e = sid#}
           \<and> sorted_wrt (\<lambda>a b. e_time a \<ge> e_time b) rows"
proof (intro exI conjI)
  show "dump_session_as_json J tr sid =
          Inr (json_dumps J (PyList (map row_tuple (select_session_entries (bdb tr) sid))))"
    using assms by (simp add: dump_in_range current_session_id_def)
  show "mset (select_session_entries (bdb tr) sid) =
          {#e \<in># mset (bayesdb_session_entries (bdb tr)). e_session_id e = sid#}"
    by (rule select_session_entries_mset)
  show "sorted_wrt (\<lambda>a b. e_time a \<ge> e_time b) (select_session_entries (bdb tr) sid)"
    by (rule select_session_entries_sorted)
qed

theorem dump_ordered_by_time_desc_witness:
  "1 \<le> (1::int) \<and> 1 \<le> current_session_id tr_two
   \<and> (\<exists>rows. dump_session_as_json J_ex tr_two 1 = Inr (json_dumps J_ex (PyList (map row_tuple rows)))
         \<and> map e_time rows = [7, 5])"
proof -
  have cur: "1 \<le> current_session_id tr_two"
    by (simp add: current_session_id_def tr_two_entries)
  have rows: "select_session_entries (bdb tr_two) 1 =
           [\<lparr>e_id = 2, e_session_id = 1, e_time = 7, e_type = ''sql'',
              e_data = ''SELECT 2;[7]'', e_completed = 0\<rparr>,
            \<lparr>e_id = 1, e_session_id = 1, e_time = 5, e_type = ''bql'',
              e_data = ''SELECT 1;{}'', e_completed = 0\<rparr>]"
    by (simp add: select_session_entries_def tr_two_entries)
  have dump: "dump_session_as_json J_ex tr_two 1 =
     Inr (json_dumps J_ex (PyList (map row_tuple (select_session_entries (bdb tr_two) 1))))"
    by (simp add: dump_session_as_json_def tr_two_entries)
  from dump_ordered_by_time_desc [of 1 tr_two J_ex, OF _ cur]
  have "\<exists>rows. dump_session_as_json J_ex tr_two 1 = Inr (json_dumps J_ex (PyList (map row_tuple rows)))"
    by auto
  moreover have "map e_time (select_session_entries (bdb tr_two) 1) = [7, 5]"
    by (simp add: rows)
  ultimately show ?thesis using cur dump by auto
qed

subsection \<open>The shape of a dumped entry\<close>

lemma join_Cons: "join sep (x # xs) = x @ (if xs = [] then [] else sep @ join sep xs)"
  by (cases xs) simp_all

lemma dumps_objects_Nil: "json_dumps J (PyList (map PyDict [])) = ''[]''"
  by simp

lemma dumps_objects_Cons:
  "\<exists>rest. json_dumps J (PyList (map PyDict (kvs # objs))) = CHR ''['' # CHR ''{'' # rest"
  by (simp add: join_Cons)

lemma dumps_row_tuple:
  "json_dumps J (row_tuple e) =
     ''['' @ str_int (e_id e) @ '', '' @ str_int (e_session_id e) @ '', '' @
     float_repr J (e_time e) @ '', '' @ encode_basestring_ascii J (e_type e) @ '', '' @
     encode_basestring_ascii J (e_data e) @ '', '' @ str_int (e_completed e) @ '']''"
  by (simp add: row_tuple_def)

lemma dumps_rows_Cons:
  "\<exists>rest. json_dumps J (PyList (map row_tuple (e # es))) = CHR ''['' # CHR ''['' # rest"
  by (simp add: join_Cons row_tuple_def)

text \<open>
  C5, as the specification states it, asks that every element of the dumped array be a
  JSON object keyed by the column names. The code passes the rows of the cursor to
  \<^verbatim>\<open>json.dumps\<close> as they are, and a row is a tuple: in the state \<open>tr_one\<close> (one recorded
  query in session 1) the dump is the encoding of a list holding one list of six values,
  and it is not the encoding of any list of dictionaries.
\<close>

theorem dump_elements_not_objects:
  "1 \<le> (1::int) \<and> 1 \<le> current_session_id tr_one
   \<and> (\<forall>J. dump_session_as_json J tr_one 1 =
         Inr (json_dumps J (PyList [PyList [PyInt 1, PyInt 1, PyFloat 5, PyStr ''bql'',
                                            PyStr ''SELECT 1;{}'', PyInt 0]])))
   \<and> (\<forall>J. \<not> (\<exists>objs. dump_session_as_json J tr_one 1 =
                         Inr (json_dumps J (PyList (map PyDict objs)))))"
proof -
  {
    fix J
    have rows: "select_session_entries (bdb tr_one) 1 =
       [\<lparr>e_id = 1, e_session_id = 1, e_time = 5, e_type = ''bql'',
         e_data = ''SELECT 1;{}'', e_completed = 0\<rparr>]"
      by (simp add: select_session_entries_def tr_one_eq)
    have dump: "dump_session_as_json J tr_one 1 =
       Inr (json_dumps J (PyList (map row_tuple (select_session_entries (bdb tr_one) 1))))"
      by (simp add: dump_session_as_json_def tr_one_eq)
    obtain rest where arr: "json_dumps J (PyList (map row_tuple (select_session_entries (bdb tr_one) 1)))
        = CHR ''['' # CHR ''['' # rest"
      unfolding rows using dumps_rows_Cons by blast
    have no: "json_dumps J (PyList (map PyDict objs)) \<noteq> CHR ''['' # CHR ''['' # rest" for objs
    proof (cases objs)
      case Nil
      then show ?thesis by simp
    next
      case (Cons kvs objs')
      obtain r where "json_dumps J (PyList (map PyDict (kvs # objs'))) = CHR ''['' # CHR ''{'' # r"
        using dumps_objects_Cons by blast
      then show ?thesis using Cons by simp
    qed
    have val: "map row_tuple (select_session_entries (bdb tr_one) 1) =
       [PyList [PyInt 1, PyInt 1, PyFloat 5, PyStr ''bql'', PyStr ''SELECT 1;{}'', PyInt 0]]"
      by (simp add: rows row_tuple_def)
    have cur: "1 \<le> current_session_id tr_one"
      by (simp add: current_session_id_def tr_one_eq)
    have d1: "dump_session_as_json J tr_one 1 =
         Inr (json_dumps J (PyList [PyList [PyInt 1, PyInt 1, PyFloat 5, PyStr ''bql'',
                                               PyStr ''SELECT 1;{}'', PyInt 0]]))"
      using dump by (simp only: val)
    have d2: "dump_session_as_json J tr_one 1 = Inr (CHR ''['' # CHR ''['' # rest)"
      using dump by (simp only: arr)
    have d3: "\<not> (\<exists>objs. dump_session_as_json J tr_one 1 =
                         Inr (json_dumps J (PyList (map PyDict objs))))"
    proof
      assume "\<exists>objs. dump_session_as_json J tr_one 1 =
                         Inr (json_dumps J (PyList (map PyDict objs)))"
      then obtain objs where "dump_session_as_json J tr_one 1 =
                         Inr (json_dumps J (PyList (map PyDict objs)))" ..
      then have "json_dumps J (PyList (map PyDict objs)) = CHR ''['' # CHR ''['' # rest"
        by (simp only: d2 sum.inject)
      then show False using no [of objs] by (rule notE [rotated])
    qed
    note d1 d3
  }
  note gen = this
  have cur: "1 \<le> current_session_id tr_one"
    by (simp add: current_session_id_def tr_one_eq)
  from cur gen show ?thesis by (intro conjI allI) simp_all
qed

text \<open>
  C5, amended. For a session id between 1 and the current session id, every element of
  the dumped array is a positional JSON array of the six column values of one row of that
  session, in the order id, session_id, time, type, data, completed.
\<close>

theorem dump_elements_are_rows:
  assumes "1 \<le> sid" and "sid \<le> current_session_id tr"
  shows "\<exists>es. dump_session_as_json J tr sid =
                 Inr (json_dumps J (PyList (map (\<lambda>e. PyList [PyInt (e_id e), PyInt (e_session_id e),
                        PyFloat (e_time e), PyStr (e_type e), PyStr (e_data e),
                        PyInt (e_completed e)]) es)))
              \<and> set es = {e \<in> set (bayesdb_session_entries (bdb tr)). e_session_id e = sid}
              \<and> dump_session_as_json J tr sid =
                 Inr (''['' @ join '', '' (map (\<lambda>e. ''['' @ str_int (e_id e) @ '', '' @
                        str_int (e_session_id e) @ '', '' @ float_repr J (e_time e) @ '', '' @
                        encode_basestring_ascii J (e_type e) @ '', '' @
                        encode_basestring_ascii J (e_data e) @ '', '' @
                        str_int (e_completed e) @ '']'') es) @ '']'')"
proof -
  let ?es = "select_session_entries (bdb tr) sid"
  have d: "dump_session_as_json J tr sid = Inr (json_dumps J (PyList (map row_tuple ?es)))"
    using assms by (simp add: dump_in_range current_session_id_def)
  have s: "set ?es = {e \<in> set (bayesdb_session_entries (bdb tr)). e_session_id e = sid}"
    by (simp add: select_session_entries_def)
  have r: "map row_tuple ?es = map (\<lambda>e. PyList [PyInt (e_id e), PyInt (e_session_id e),
                        PyFloat (e_time e), PyStr (e_type e), PyStr (e_data e),
                        PyInt (e_completed e)]) ?es"
    by (simp add: row_tuple_def)
  have t: "json_dumps J (PyList (map row_tuple ?es)) =
             ''['' @ join '', '' (map (\<lambda>e. ''['' @ str_int (e_id e) @ '', '' @
                        str_int (e_session_id e) @ '', '' @ float_repr J (e_time e) @ '', '' @
                        encode_basestring_ascii J (e_type e) @ '', '' @
                        encode_basestring_ascii J (e_data e) @ '', '' @
                        str_int (e_completed e) @ '']'') ?es) @ '']''"
    by (simp add: row_tuple_def comp_def)
  have d': "dump_session_as_json J tr sid =
                 Inr (json_dumps J (PyList (map (\<lambda>e. PyList [PyInt (e_id e), PyInt (e_session_id e),
                        PyFloat (e_time e), PyStr (e_type e), PyStr (e_data e),
                        PyInt (e_completed e)]) ?es)))"
    using d by (simp only: r)
  have t': "dump_session_as_json J tr sid =
                 Inr (''['' @ join '', '' (map (\<lambda>e. ''['' @ str_int (e_id e) @ '', '' @
                        str_int (e_session_id e) @ '', '' @ float_repr J (e_time e) @ '', '' @
                        encode_basestring_ascii J (e_type e) @ '', '' @
                        encode_basestring_ascii J (e_data e) @ '', '' @
                        str_int (e_completed e) @ '']'') ?es) @ '']'')"
    using d by (simp only: t)
  show ?thesis
  proof (intro exI [of _ ?es] conjI)
    show "dump_session_as_json J tr sid =
                 Inr (json_dumps J (PyList (map (\<lambda>e. PyList [PyInt (e_id e), PyInt (e_session_id e),
                        PyFloat (e_time e), PyStr (e_type e), PyStr (e_data e),
                        PyInt (e_completed e)]) ?es)))" by (rule d')
    show "set ?es = {e \<in> set (bayesdb_session_entries (bdb tr)). e_session_id e = sid}" by (rule s)
    show "dump_session_as_json J tr sid =
                 Inr (''['' @ join '', '' (map (\<lambda>e. ''['' @ str_int (e_id e) @ '', '' @
                        str_int (e_session_id e) @ '', '' @ float_repr J (e_time e) @ '', '' @
                        encode_basestring_ascii J (e_type e) @ '', '' @
                        encode_basestring_ascii J (e_data e) @ '', '' @
                        str_int (e_completed e) @ '']'') ?es) @ '']'')" by (rule t')
  qed
qed

theorem dump_elements_are_rows_witness:
  "1 \<le> (1::int) \<and> 1 \<le> current_session_id tr_one
   \<and> dump_session_as_json J_ex tr_one 1 =
       Inr (''[[1, 1, 5.0, '' @ [CHR 0x22] @ ''bql'' @ [CHR 0x22] @ '', '' @
            [CHR 0x22] @ ''SELECT 1;{}'' @ [CHR 0x22] @ '', 0]]'')"
proof -
  have cur: "1 \<le> current_session_id tr_one"
    by (simp add: current_session_id_def tr_one_eq)
  have dump: "dump_session_as_json J_ex tr_one 1 =
       Inr (''[[1, 1, 5.0, '' @ [CHR 0x22] @ ''bql'' @ [CHR 0x22] @ '', '' @
            [CHR 0x22] @ ''SELECT 1;{}'' @ [CHR 0x22] @ '', 0]]'')"
    by (simp add: dump_session_as_json_def select_session_entries_def tr_one_eq row_tuple_def
          J_ex_def float_repr_ex_def encode_basestring_ascii_ex_def str_int_def)
  from dump_elements_are_rows [of 1 tr_one J_ex, OF _ cur] show ?thesis
    using cur dump by simp
qed

subsection \<open>Clearing the log\<close>

lemma new_rowid_empty: "new_rowid [] None = 1"
  by (simp add: new_rowid_def)

lemma new_rowid_empty_ge: "1 \<le> new_rowid [] seq"
  by (simp add: new_rowid_def)

lemma new_rowid_positive: "\<forall>i\<in>set ids. 1 \<le> i \<Longrightarrow> 1 \<le> new_rowid ids seq"
proof (cases ids)
  case Nil
  then show ?thesis by (simp add: new_rowid_def)
next
  case (Cons j js)
  assume "\<forall>i\<in>set ids. 1 \<le> i"
  then have "1 \<le> j" using Cons by simp
  moreover have "j \<le> fold max js j" using fold_max_ge [of j js] by simp
  ultimately show ?thesis by (simp add: new_rowid_def Cons)
qed

lemma clear_all_sessions_state:
  "clear_all_sessions tr =
     tr\<lparr>bdb := (bdb tr)\<lparr>bayesdb_session := [\<lparr>s_id = 1\<rparr>],
                        bayesdb_session_entries := [],
                        sqlite_sequence := (sqlite_sequence (bdb tr))
                            (''bayesdb_session_entries'' := None, ''bayesdb_session'' \<mapsto> 1),
                        last_insert_rowid := 1\<rparr>,
        session_id := 1\<rparr>"
  by (simp add: clear_all_sessions_def start_new_session_def insert_session_def delete_all_def
        new_rowid_def Let_def fun_upd_twist)

text \<open>
  C6. Whatever the log held before, after \<open>clear_all_sessions\<close> the entry table is empty,
  the session table holds exactly one row, the current session is that row, its id is 1
  (the id SQLite hands out for an empty table with no sequence entry), and the session
  has no entries. Both id sequences start again: the fresh session took id 1 and the entry
  table has no sequence entry left, so the next recorded entry gets id 1 and the next
  session id 2.
\<close>

theorem clear_all_sessions_resets:
  "bayesdb_session_entries (bdb (clear_all_sessions tr)) = []
   \<and> list_sessions (clear_all_sessions tr) = [\<lparr>s_id = 1\<rparr>]
   \<and> length (list_sessions (clear_all_sessions tr)) = 1
   \<and> current_session_id (clear_all_sessions tr) = 1
   \<and> current_session_id (clear_all_sessions tr) = new_rowid [] None
   \<and> sqlite_sequence (bdb (clear_all_sessions tr)) ''bayesdb_session'' = Some 1
   \<and> sqlite_sequence (bdb (clear_all_sessions tr)) ''bayesdb_session_entries'' = None
   \<and> select_session_entries (bdb (clear_all_sessions tr))
        (current_session_id (clear_all_sessions tr)) = []
   \<and> last_insert_rowid (bdb (fst (trace J (clear_all_sessions tr) ty q b t))) = 1
   \<and> current_session_id (start_new_session (clear_all_sessions tr)) = 2"
proof -
  let ?c = "clear_all_sessions tr"
  have e: "bayesdb_session_entries (bdb ?c) = []"
    by (simp add: clear_all_sessions_state)
  have l: "list_sessions ?c = [\<lparr>s_id = 1\<rparr>]"
    by (simp add: clear_all_sessions_state list_sessions_def)
  have c: "current_session_id ?c = 1"
    by (simp add: clear_all_sessions_state current_session_id_def)
  have s1: "sqlite_sequence (bdb ?c) ''bayesdb_session'' = Some 1"
    by (simp add: clear_all_sessions_state)
  have s2: "sqlite_sequence (bdb ?c) ''bayesdb_session_entries'' = None"
    by (simp add: clear_all_sessions_state)
  have sel: "select_session_entries (bdb ?c) (current_session_id ?c) = []"
    by (simp add: select_session_entries_def e)
  have nxt: "last_insert_rowid (bdb (fst (trace J ?c ty q b t))) = 1"
    by (simp add: trace_state insert_entry_def Let_def e s2 new_rowid_def)
  have ses: "current_session_id (start_new_session ?c) = 2"
    by (simp add: current_session_id_def start_new_session_def insert_session_def Let_def
          new_rowid_def clear_all_sessions_state)
  from e l c s1 s2 sel nxt ses show ?thesis
    by (simp add: new_rowid_empty)
qed

theorem clear_all_sessions_resets_witness:
  "bayesdb_session_entries (bdb tr_two) \<noteq> []
   \<and> bayesdb_session_entries (bdb (clear_all_sessions tr_two)) = []
   \<and> list_sessions (clear_all_sessions tr_two) = [\<lparr>s_id = 1\<rparr>]
   \<and> current_session_id (clear_all_sessions tr_two) = 1"
  using clear_all_sessions_resets [of tr_two J_ex "''sql''" "''SELECT 1;''" "PyDict []" 0]
  by (simp add: tr_two_entries)

subsection \<open>Construction of a tracer\<close>

lemma start_new_session_state:
  "start_new_session tr =
     tr\<lparr>bdb := insert_session (bdb tr),
        session_id := new_rowid (map s_id (bayesdb_session (bdb tr)))
                        (sqlite_sequence (bdb tr) ''bayesdb_session'')\<rparr>"
  by (simp add: start_new_session_def insert_session_def Let_def)

lemma insert_session_entries:
  "bayesdb_session_entries (insert_session d) = bayesdb_session_entries d"
  by (simp add: insert_session_def Let_def)

lemma insert_session_sessions:
  "bayesdb_session (insert_session d) =
     bayesdb_session d @ [\<lparr>s_id = new_rowid (map s_id (bayesdb_session d))
                                     (sqlite_sequence d ''bayesdb_session'')\<rparr>]"
  by (simp add: insert_session_def Let_def)

lemma check_unfinished_entries_bdb:
  "bdb (fst (check_unfinished_entries tr)) = bdb tr
   \<and> session_id (fst (check_unfinished_entries tr)) = session_id tr"
  by (simp add: check_unfinished_entries_def print_def Let_def)

lemma init_session_id:
  "session_id (SessionTracer_init d) =
     new_rowid (map s_id (bayesdb_session d)) (sqlite_sequence d ''bayesdb_session'')"
  by (simp add: SessionTracer_init_def check_unfinished_entries_bdb start_new_session_state)

lemma init_bdb: "bdb (SessionTracer_init d) = insert_session d"
  by (simp add: SessionTracer_init_def check_unfinished_entries_bdb start_new_session_state)

text \<open>
  C7. Constructing a tracer on a database \<open>d\<close> appends one session row, whose id becomes
  the current session id, and leaves the entry table as it is. The check that follows
  counts the entries of session \<open>current id - 1\<close> whose \<open>completed\<close> column is 0. The
  tracer prints exactly one line, a fixed warning about uncompleted entries, when that
  count is positive, and nothing otherwise. The check has no error branch, and the
  printed text does not depend on which entries are uncompleted.
\<close>

theorem init_warns_iff_uncompleted:
  "current_session_id (SessionTracer_init d) =
     new_rowid (map s_id (bayesdb_session d)) (sqlite_sequence d ''bayesdb_session'')
   \<and> list_sessions (SessionTracer_init d) =
       bayesdb_session d @ [\<lparr>s_id = current_session_id (SessionTracer_init d)\<rparr>]
   \<and> bayesdb_session_entries (bdb (SessionTracer_init d)) = bayesdb_session_entries d
   \<and> snd (check_unfinished_entries (start_new_session \<lparr>bdb = d, session_id = 0, out = []\<rparr>)) =
       int (length (filter (\<lambda>e. e_completed e = 0 \<and>
                                   e_session_id e = current_session_id (SessionTracer_init d) - 1)
                      (bayesdb_session_entries d)))
   \<and> out (SessionTracer_init d) =
       (if 0 < length (filter (\<lambda>e. e_completed e = 0 \<and>
                                   e_session_id e = current_session_id (SessionTracer_init d) - 1)
                         (bayesdb_session_entries d))
        then [''WARNING: Previous session contains uncompleted entries. This may be due to a bad termination or crash of the previous session. Consider uploading the session with send_session_data().'']
        else [])"
proof -
  let ?sid = "new_rowid (map s_id (bayesdb_session d)) (sqlite_sequence d ''bayesdb_session'')"
  let ?tr = "start_new_session \<lparr>bdb = d, session_id = 0, out = []\<rparr>"
  have cur: "current_session_id (SessionTracer_init d) = ?sid"
    by (simp add: current_session_id_def init_session_id)
  have ses: "list_sessions (SessionTracer_init d) = bayesdb_session d @ [\<lparr>s_id = ?sid\<rparr>]"
    by (simp add: list_sessions_def init_bdb insert_session_sessions)
  have ent: "bayesdb_session_entries (bdb (SessionTracer_init d)) = bayesdb_session_entries d"
    by (simp add: init_bdb insert_session_entries)
  have cnt: "count_uncompleted (bdb ?tr) (session_id ?tr - 1) =
               int (length (filter (\<lambda>e. e_completed e = 0 \<and> e_session_id e = ?sid - 1)
                              (bayesdb_session_entries d)))"
    by (simp add: count_uncompleted_def start_new_session_state insert_session_entries)
  have ret: "snd (check_unfinished_entries ?tr) =
               int (length (filter (\<lambda>e. e_completed e = 0 \<and> e_session_id e = ?sid - 1)
                              (bayesdb_session_entries d)))"
    using cnt by (simp add: check_unfinished_entries_def Let_def)
  have out0: "out ?tr = []"
    by (simp add: start_new_session_state)
  have prt: "out (SessionTracer_init d) =
       (if 0 < length (filter (\<lambda>e. e_completed e = 0 \<and> e_session_id e = ?sid - 1)
                         (bayesdb_session_entries d))
        then [''WARNING: Previous session contains uncompleted entries. This may be due to a bad termination or crash of the previous session. Consider uploading the session with send_session_data().'']
        else [])"
    using cnt out0 by (simp add: SessionTracer_init_def check_unfinished_entries_def Let_def print_def)
  show ?thesis
    unfolding cur using ses ent ret prt by (intro conjI) simp_all
qed

theorem init_warns_iff_uncompleted_witness:
  "current_session_id (SessionTracer_init (bdb tr_one)) = 2
   \<and> length (out (SessionTracer_init (bdb tr_one))) = 1
   \<and> out (SessionTracer_init (bdb (finish tr_one 1))) = []"
proof -
  show ?thesis
    using init_warns_iff_uncompleted [of "bdb tr_one"]
          init_warns_iff_uncompleted [of "bdb (finish tr_one 1)"]
    by (simp add: new_rowid_def current_session_id_def init_session_id tr_one_eq finish_state)
qed

subsection \<open>Well-formedness is an invariant\<close>

text \<open>
  The empty database is well-formed; construction on a well-formed database, recording a
  query, completing an entry and clearing the log give well-formed tracers.
\<close>

lemma db_wf_db_ex: "db_wf db_ex"
  by (simp add: db_wf_def db_ex_def)

lemma db_wf_insert_session: "db_wf d \<Longrightarrow> db_wf (insert_session d)"
proof -
  assume wf: "db_wf d"
  have "1 \<le> new_rowid (map s_id (bayesdb_session d)) (sqlite_sequence d ''bayesdb_session'')"
    using wf by (intro new_rowid_positive) (simp add: db_wf_def)
  then show ?thesis
    using wf by (auto simp: db_wf_def insert_session_sessions insert_session_entries)
qed

lemma tracer_wf_init: "db_wf d \<Longrightarrow> tracer_wf (SessionTracer_init d)"
  by (simp add: tracer_wf_def init_bdb init_session_id db_wf_insert_session insert_session_sessions)

lemma tracer_wf_trace: "tracer_wf tr \<Longrightarrow> tracer_wf (fst (trace J tr ty q b t))"
  by (auto simp: tracer_wf_def db_wf_def trace_state insert_entry_entries insert_entry_sessions)

lemma tracer_wf_finish: "tracer_wf tr \<Longrightarrow> tracer_wf (finish tr i)"
  by (auto simp: tracer_wf_def db_wf_def finish_state)

lemma tracer_wf_clear: "tracer_wf (clear_all_sessions tr)"
  by (simp add: tracer_wf_def db_wf_def clear_all_sessions_state)

subsection \<open>Dumping a session without entries\<close>

lemma select_none:
  "\<forall>e\<in>set (bayesdb_session_entries d). e_session_id e \<noteq> sid \<Longrightarrow> select_session_entries d sid = []"
proof -
  assume "\<forall>e\<in>set (bayesdb_session_entries d). e_session_id e \<noteq> sid"
  then have "filter (\<lambda>e. e_session_id e = sid) (bayesdb_session_entries d) = []"
    by (simp add: filter_empty_conv)
  then show ?thesis by (simp add: select_session_entries_def)
qed

lemma init_session_has_no_entries:
  assumes "db_wf d"
  shows "\<forall>e\<in>set (bayesdb_session_entries (bdb (SessionTracer_init d))).
           e_session_id e \<noteq> session_id (SessionTracer_init d)"
proof
  fix e
  assume "e \<in> set (bayesdb_session_entries (bdb (SessionTracer_init d)))"
  then have "e \<in> set (bayesdb_session_entries d)"
    by (simp add: init_bdb insert_session_entries)
  then have "e_session_id e \<in> set (map s_id (bayesdb_session d))"
    using assms by (simp add: db_wf_def)
  then have "e_session_id e < new_rowid (map s_id (bayesdb_session d))
                                 (sqlite_sequence d ''bayesdb_session'')"
    by (rule new_rowid_fresh)
  then show "e_session_id e \<noteq> session_id (SessionTracer_init d)"
    by (simp add: init_session_id)
qed

text \<open>
  C10. For a session id between 1 and the current session id whose session has no entry
  in the entry table, \<open>dump_session_as_json\<close> returns the string \<^verbatim>\<open>[]\<close> and does not
  raise. This is the case of the current session right after \<open>clear_all_sessions\<close>, for
  every prior state, and of the current session right after the construction of a tracer
  on a well-formed database.
\<close>

theorem dump_empty_session:
  "(1 \<le> sid \<and> sid \<le> current_session_id tr
      \<and> (\<forall>e\<in>set (bayesdb_session_entries (bdb tr)). e_session_id e \<noteq> sid)
      \<longrightarrow> dump_session_as_json J tr sid = Inr ''[]'')
   \<and> dump_session_as_json J (clear_all_sessions tr) (current_session_id (clear_all_sessions tr))
       = Inr ''[]''
   \<and> (db_wf d \<longrightarrow>
        dump_session_as_json J (SessionTracer_init d) (current_session_id (SessionTracer_init d))
          = Inr ''[]'')"
proof (intro conjI impI)
  assume a: "1 \<le> sid \<and> sid \<le> current_session_id tr
      \<and> (\<forall>e\<in>set (bayesdb_session_entries (bdb tr)). e_session_id e \<noteq> sid)"
  then have "select_session_entries (bdb tr) sid = []"
    by (simp add: select_none)
  then show "dump_session_as_json J tr sid = Inr ''[]''"
    using a by (simp add: dump_in_range current_session_id_def)
next
  show "dump_session_as_json J (clear_all_sessions tr) (current_session_id (clear_all_sessions tr))
       = Inr ''[]''"
    by (simp add: dump_session_as_json_def current_session_id_def select_session_entries_def
          clear_all_sessions_state)
next
  assume wf: "db_wf d"
  let ?tr = "SessionTracer_init d"
  have pos: "1 \<le> session_id ?tr"
    using wf unfolding init_session_id by (intro new_rowid_positive) (simp add: db_wf_def)
  have "select_session_entries (bdb ?tr) (session_id ?tr) = []"
    using init_session_has_no_entries [OF wf] by (rule select_none)
  then show "dump_session_as_json J ?tr (current_session_id ?tr) = Inr ''[]''"
    using pos by (simp add: dump_in_range current_session_id_def)
qed

theorem dump_empty_session_witness:
  "1 \<le> (1::int) \<and> 1 \<le> current_session_id tr_ex
   \<and> bayesdb_session_entries (bdb tr_ex) = []
   \<and> dump_session_as_json J_ex tr_ex 1 = Inr ''[]''
   \<and> db_wf (bdb tr_one)
   \<and> current_session_id (SessionTracer_init (bdb tr_one)) = 2
   \<and> dump_session_as_json J_ex (SessionTracer_init (bdb tr_one)) 2 = Inr ''[]''"
proof -
  have h1: "1 \<le> current_session_id tr_ex
     \<and> (\<forall>e\<in>set (bayesdb_session_entries (bdb tr_ex)). e_session_id e \<noteq> 1)"
    by (simp add: current_session_id_def tr_ex_def db_ex_def)
  have h2: "db_wf (bdb tr_one)"
    by (simp add: db_wf_def tr_one_eq)
  have h3: "current_session_id (SessionTracer_init (bdb tr_one)) = 2"
    by (simp add: current_session_id_def init_session_id tr_one_eq new_rowid_def)
  have h4: "bayesdb_session_entries (bdb tr_ex) = []"
    by (simp add: tr_ex_def db_ex_def)
  show ?thesis
    using dump_empty_session [of 1 tr_ex J_ex "bdb tr_one"] h1 h2 h3 h4 by simp
qed

subsection \<open>Uploading the sessions\<close>

lemma dumps_empty_list: "json_dumps J (PyList []) = ''[]''"
  by simp

text \<open>
  Printing does not change what a dump returns. The loop posts, in order, the dumps of a
  prefix of the ids it is given, and of all of them when it ends without an exception; it
  changes neither the database nor the current session id.
\<close>

lemma dump_print: "dump_session_as_json J (print tr x) i = dump_session_as_json J tr i"
  by (simp add: dump_session_as_json_def print_def)

lemma print_frame: "bdb (print tr x) = bdb tr \<and> session_id (print tr x) = session_id tr"
  by (simp add: print_def)

lemma send_loop_prefix:
  "\<exists>tr' n r. send_loop J net (tr, posted) ids =
       ((tr', posted @ map (\<lambda>i. (probcomp_url, [(''session_json'',
            json_dumps J (PyList (map row_tuple (select_session_entries (bdb tr) i))))])) (take n ids)), r)
     \<and> bdb tr' = bdb tr \<and> session_id tr' = session_id tr
     \<and> (r = Inr () \<longrightarrow> take n ids = ids)"
proof (induction ids arbitrary: tr posted)
  case Nil
  show ?case by simp
next
  case (Cons i ids)
  let ?mk = "\<lambda>tr i. (probcomp_url, [(''session_json'',
            json_dumps J (PyList (map row_tuple (select_session_entries (bdb tr) i))))])"
  let ?tr1 = "print tr (''Sending session '' @ str_int i @ '' to '' @ probcomp_url @ '' ...'')"
  show ?case
  proof (cases "dump_session_as_json J ?tr1 i")
    case (Inl e)
    then have "send_loop J net (tr, posted) (i # ids) = ((?tr1, posted @ map (?mk tr) (take 0 (i # ids))), Inl e)"
      by simp
    then show ?thesis using print_frame by blast
  next
    case (Inr js)
    then have "dump_session_as_json J tr i = Inr js"
      by (simp only: dump_print)
    then have js: "js = json_dumps J (PyList (map row_tuple (select_session_entries (bdb tr) i)))"
      by (simp add: dump_session_as_json_def del: json_dumps.simps split: if_splits)
    let ?tr2 = "print ?tr1 js"
    let ?req = "(probcomp_url, [(''session_json'', js)])"
    show ?thesis
    proof (cases "net posted ?req")
      case (Inl e)
      then have "send_loop J net (tr, posted) (i # ids) = ((?tr2, posted @ [?req]), Inl e)"
        using Inr by simp
      then have "send_loop J net (tr, posted) (i # ids) =
                   ((?tr2, posted @ map (?mk tr) (take 1 (i # ids))), Inl e)"
        by (simp add: js)
      moreover have "bdb ?tr2 = bdb tr \<and> session_id ?tr2 = session_id tr"
        by (simp add: print_frame)
      ultimately show ?thesis by blast
    next
      case (Inr resp)
      let ?tr3 = "print ?tr2 (''Response: '' @ resp)"
      have step: "send_loop J net (tr, posted) (i # ids) = send_loop J net (?tr3, posted @ [?req]) ids"
        using Inr \<open>dump_session_as_json J ?tr1 i = Inr js\<close> by simp
      have fr: "bdb ?tr3 = bdb tr \<and> session_id ?tr3 = session_id tr"
        by (simp add: print_frame)
      from Cons.IH [of ?tr3 "posted @ [?req]"]
      obtain tr' n r where rec: "send_loop J net (?tr3, posted @ [?req]) ids =
             ((tr', (posted @ [?req]) @ map (?mk ?tr3) (take n ids)), r)"
          and fr': "bdb tr' = bdb ?tr3 \<and> session_id tr' = session_id ?tr3"
          and fin: "r = Inr () \<longrightarrow> take n ids = ids"
        by blast
      have mk: "?mk ?tr3 = ?mk tr" by (simp add: print_frame)
      have "send_loop J net (tr, posted) (i # ids) =
              ((tr', posted @ map (?mk tr) (take (Suc n) (i # ids))), r)"
        unfolding step rec mk by (simp add: js)
      moreover have "bdb tr' = bdb tr \<and> session_id tr' = session_id tr"
        using fr fr' by simp
      moreover have "r = Inr () \<longrightarrow> take (Suc n) (i # ids) = i # ids"
        using fin by simp
      ultimately show ?thesis by blast
    qed
  qed
qed

lemma send_loop_complete:
  assumes net: "\<forall>log req. \<exists>resp. net log req = Inr resp"
      and rng: "\<forall>i\<in>set ids. 1 \<le> i \<and> i \<le> session_id tr"
  shows "\<exists>tr'. send_loop J net (tr, posted) ids =
       ((tr', posted @ map (\<lambda>i. (probcomp_url, [(''session_json'',
            json_dumps J (PyList (map row_tuple (select_session_entries (bdb tr) i))))])) ids), Inr ())
     \<and> bdb tr' = bdb tr \<and> session_id tr' = session_id tr"
  using rng
proof (induction ids arbitrary: tr posted)
  case Nil
  show ?case by simp
next
  case (Cons i ids)
  let ?mk = "\<lambda>tr i. (probcomp_url, [(''session_json'',
            json_dumps J (PyList (map row_tuple (select_session_entries (bdb tr) i))))])"
  let ?tr1 = "print tr (''Sending session '' @ str_int i @ '' to '' @ probcomp_url @ '' ...'')"
  let ?js = "json_dumps J (PyList (map row_tuple (select_session_entries (bdb tr) i)))"
  let ?tr2 = "print ?tr1 ?js"
  have d: "dump_session_as_json J ?tr1 i = Inr ?js"
    using Cons.prems by (simp add: dump_print dump_in_range)
  obtain resp where t: "net posted (?mk tr i) = Inr resp"
    using net by blast
  let ?tr3 = "print ?tr2 (''Response: '' @ resp)"
  have step: "send_loop J net (tr, posted) (i # ids) = send_loop J net (?tr3, posted @ [?mk tr i]) ids"
    using d t by simp
  have fr: "bdb ?tr3 = bdb tr \<and> session_id ?tr3 = session_id tr"
    by (simp add: print_frame)
  have "\<forall>i\<in>set ids. 1 \<le> i \<and> i \<le> session_id ?tr3"
    using Cons.prems fr by simp
  from Cons.IH [OF this, of "posted @ [?mk tr i]"]
  obtain tr' where rec: "send_loop J net (?tr3, posted @ [?mk tr i]) ids =
             ((tr', (posted @ [?mk tr i]) @ map (?mk ?tr3) ids), Inr ())"
      and fr': "bdb tr' = bdb ?tr3 \<and> session_id tr' = session_id ?tr3"
    by blast
  have mk: "?mk ?tr3 = ?mk tr" by (simp add: print_frame)
  have "send_loop J net (tr, posted) (i # ids) = ((tr', posted @ map (?mk tr) (i # ids)), Inr ())"
    unfolding step rec mk by simp
  moreover have "bdb tr' = bdb tr \<and> session_id tr' = session_id tr"
    using fr fr' by simp
  ultimately show ?case by blast
qed

text \<open>
  C8. \<open>send_session_data\<close> walks the ids \<open>1, 2, ..., current session id\<close> in increasing
  order. Every request it makes is a POST to the fixed URL \<open>probcomp_url\<close> whose only form
  field \<open>session_json\<close> holds the string that \<open>dump_session_as_json\<close> returns for the id,
  one request per id, for the ids of a prefix of that range: no other id is dumped or
  uploaded. When no POST raises, the prefix is the whole range and the call returns
  normally. The database and the current session id are unchanged.
\<close>

theorem send_session_data_visits_all:
  "(\<exists>tr' n r. send_session_data J net (tr, posted) =
       ((tr', posted @ map (\<lambda>i. (probcomp_url, [(''session_json'',
            json_dumps J (PyList (map row_tuple (select_session_entries (bdb tr) i))))]))
              (take n [1..current_session_id tr])), r)
     \<and> bdb tr' = bdb tr \<and> current_session_id tr' = current_session_id tr
     \<and> (r = Inr () \<longrightarrow> take n [1..current_session_id tr] = [1..current_session_id tr]))
   \<and> ((\<forall>log req. \<exists>resp. net log req = Inr resp) \<longrightarrow>
       (\<exists>tr'. send_session_data J net (tr, posted) =
         ((tr', posted @ map (\<lambda>i. (probcomp_url, [(''session_json'',
              json_dumps J (PyList (map row_tuple (select_session_entries (bdb tr) i))))]))
                [1..current_session_id tr]), Inr ())
       \<and> bdb tr' = bdb tr \<and> current_session_id tr' = current_session_id tr))
   \<and> (\<forall>i\<in>set [1..current_session_id tr]. dump_session_as_json J tr i =
         Inr (json_dumps J (PyList (map row_tuple (select_session_entries (bdb tr) i)))))"
proof (intro conjI impI)
  show "\<exists>tr' n r. send_session_data J net (tr, posted) =
       ((tr', posted @ map (\<lambda>i. (probcomp_url, [(''session_json'',
            json_dumps J (PyList (map row_tuple (select_session_entries (bdb tr) i))))]))
              (take n [1..current_session_id tr])), r)
     \<and> bdb tr' = bdb tr \<and> current_session_id tr' = current_session_id tr
     \<and> (r = Inr () \<longrightarrow> take n [1..current_session_id tr] = [1..current_session_id tr])"
    unfolding send_session_data_def current_session_id_def fst_conv
    by (rule send_loop_prefix)
next
  assume net: "\<forall>log req. \<exists>resp. net log req = Inr resp"
  have rng: "\<forall>i\<in>set [1..session_id tr]. 1 \<le> i \<and> i \<le> session_id tr"
    by simp
  show "\<exists>tr'. send_session_data J net (tr, posted) =
         ((tr', posted @ map (\<lambda>i. (probcomp_url, [(''session_json'',
              json_dumps J (PyList (map row_tuple (select_session_entries (bdb tr) i))))]))
                [1..current_session_id tr]), Inr ())
       \<and> bdb tr' = bdb tr \<and> current_session_id tr' = current_session_id tr"
    unfolding send_session_data_def current_session_id_def fst_conv
    by (rule send_loop_complete [OF net rng])
next
  show "\<forall>i\<in>set [1..current_session_id tr]. dump_session_as_json J tr i =
         Inr (json_dumps J (PyList (map row_tuple (select_session_entries (bdb tr) i))))"
    by (simp add: current_session_id_def dump_in_range del: json_dumps.simps)
qed

theorem send_session_data_visits_all_witness:
  "(\<forall>log req. \<exists>resp. (\<lambda>log req. Inr ''ok'' :: error + string) log req = Inr resp)
   \<and> current_session_id (SessionTracer_init (bdb tr_one)) = 2
   \<and> (\<exists>tr'. send_session_data J_ex (\<lambda>log req. Inr ''ok'') (SessionTracer_init (bdb tr_one), []) =
        ((tr', [(probcomp_url, [(''session_json'', json_dumps J_ex (PyList
                   [PyList [PyInt 1, PyInt 1, PyFloat 5, PyStr ''bql'', PyStr ''SELECT 1;{}'',
                            PyInt 0]]))]),
                (probcomp_url, [(''session_json'', ''[]'')])]),
         Inr ()))"
proof -
  let ?tr = "SessionTracer_init (bdb tr_one)"
  have net: "\<forall>log req. \<exists>resp. (\<lambda>log req. Inr ''ok'' :: error + string) log req = Inr resp"
    by simp
  have cur: "current_session_id ?tr = 2"
    by (simp add: current_session_id_def init_session_id tr_one_eq new_rowid_def)
  have ids: "[1..current_session_id ?tr] = [1, 2]"
    unfolding cur by (simp add: upto_rec1)
  have ents: "bayesdb_session_entries (bdb ?tr) =
     [\<lparr>e_id = 1, e_session_id = 1, e_time = 5, e_type = ''bql'',
       e_data = ''SELECT 1;{}'', e_completed = 0\<rparr>]"
    by (simp add: init_bdb insert_session_entries tr_one_eq)
  have s1: "map row_tuple (select_session_entries (bdb ?tr) 1) =
     [PyList [PyInt 1, PyInt 1, PyFloat 5, PyStr ''bql'', PyStr ''SELECT 1;{}'', PyInt 0]]"
    by (simp add: select_session_entries_def ents row_tuple_def)
  have s2: "map row_tuple (select_session_entries (bdb ?tr) 2) = []"
    by (simp add: select_session_entries_def ents)
  from send_session_data_visits_all [of J_ex "\<lambda>log req. Inr ''ok''" ?tr "[]"] net
  obtain tr' where "send_session_data J_ex (\<lambda>log req. Inr ''ok'') (?tr, []) =
         ((tr', [] @ map (\<lambda>i. (probcomp_url, [(''session_json'',
              json_dumps J_ex (PyList (map row_tuple (select_session_entries (bdb ?tr) i))))]))
                [1..current_session_id ?tr]), Inr ())"
    by blast
  then have "send_session_data J_ex (\<lambda>log req. Inr ''ok'') (?tr, []) =
        ((tr', [(probcomp_url, [(''session_json'', json_dumps J_ex (PyList
                   [PyList [PyInt 1, PyInt 1, PyFloat 5, PyStr ''bql'', PyStr ''SELECT 1;{}'',
                            PyInt 0]]))]),
                (probcomp_url, [(''session_json'', ''[]'')])]),
         Inr ())"
    unfolding ids using dumps_empty_list [of J_ex] by (simp add: s1 s2 del: json_dumps.simps)
  then show ?thesis using net cur by blast
qed

subsection \<open>The completion callback and the other rows\<close>

lemma cb_one_eq: "cb_one = (\<lambda>s. finish s 1)"
  by (simp add: cb_one_def bql_trace_def trace_callback tr_ex_def db_ex_def new_rowid_def)

lemma cb_two_eq: "cb_two = (\<lambda>s. finish s 2)"
  by (simp add: cb_two_def sql_trace_def trace_callback tr_one_eq new_rowid_def)

lemma tr_reused_entries:
  "bayesdb_session_entries (bdb tr_reused) =
     [\<lparr>e_id = 1, e_session_id = 1, e_time = 7, e_type = ''sql'', e_data = ''SELECT 2;{}'',
       e_completed = 0\<rparr>]"
  by (simp add: tr_reused_def sql_trace_def trace_state insert_entry_entries
        clear_all_sessions_state new_rowid_def)

lemma tr_two_seq: "sqlite_sequence (bdb tr_two) ''bayesdb_session_entries'' = Some 2"
  by (simp add: tr_two_def tr_one_eq sql_trace_def trace_def insert_entry_def new_rowid_def
        Let_def)

lemma tr_three_entries:
  "bayesdb_session_entries (bdb tr_three) =
     [\<lparr>e_id = 1, e_session_id = 1, e_time = 5, e_type = ''bql'',
       e_data = ''SELECT 1;{}'', e_completed = 0\<rparr>,
      \<lparr>e_id = 2, e_session_id = 1, e_time = 7, e_type = ''sql'',
       e_data = ''SELECT 2;[7]'', e_completed = 0\<rparr>,
      \<lparr>e_id = 3, e_session_id = 1, e_time = 9, e_type = ''bql'',
       e_data = ''SELECT 3;{}'', e_completed = 1\<rparr>]"
  by (simp add: tr_three_def bql_trace_def finish_state trace_state insert_entry_entries
        tr_two_entries tr_two_seq new_rowid_def)

lemma map_mark_around:
  assumes "\<forall>e\<in>set xs. e_id e \<noteq> e_id new" and "\<forall>e\<in>set ys. e_id e \<noteq> e_id new"
  shows "map (\<lambda>e. if e_id e = e_id new then e\<lparr>e_completed := 1\<rparr> else e)
           (xs @ [new\<lparr>e_completed := c\<rparr>] @ ys) = xs @ [new\<lparr>e_completed := 1\<rparr>] @ ys"
  using map_mark_other [OF assms(1)] map_mark_other [OF assms(2)] by simp

lemma later_state_keeps_entry:
  assumes "later_state s0 s"
      and "bayesdb_session_entries (bdb s0) = old @ [new]"
      and "\<forall>e\<in>set old. e_id e \<noteq> e_id new"
  shows "\<exists>xs ys c. bayesdb_session_entries (bdb s) = xs @ [new\<lparr>e_completed := c\<rparr>] @ ys
           \<and> (\<forall>e\<in>set xs. e_id e \<noteq> e_id new) \<and> (\<forall>e\<in>set ys. e_id e \<noteq> e_id new)"
  using assms(1)
proof (induction rule: later_state.induct)
  case here
  have "bayesdb_session_entries (bdb s0) = old @ [new\<lparr>e_completed := e_completed new\<rparr>] @ []"
    using assms(2) by simp
  then show ?case using assms(3) by (metis empty_iff list.set(1))
next
  case (after_trace s J ty q b t)
  then obtain xs ys c where
    ents: "bayesdb_session_entries (bdb s) = xs @ [new\<lparr>e_completed := c\<rparr>] @ ys"
    and xs: "\<forall>e\<in>set xs. e_id e \<noteq> e_id new" and ys: "\<forall>e\<in>set ys. e_id e \<noteq> e_id new"
    by blast
  let ?i = "new_rowid (map e_id (bayesdb_session_entries (bdb s)))
              (sqlite_sequence (bdb s) ''bayesdb_session_entries'')"
  let ?row = "\<lparr>e_id = ?i, e_session_id = session_id s, e_time = t, e_type = ty,
               e_data = q @ json_dumps J b, e_completed = 0\<rparr>"
  have "e_id new \<in> set (map e_id (bayesdb_session_entries (bdb s)))"
    by (simp add: ents)
  then have "e_id new < ?i" by (rule new_rowid_fresh)
  then have fresh: "e_id ?row \<noteq> e_id new" by simp
  have "bayesdb_session_entries (bdb (fst (trace J s ty q b t))) =
          xs @ [new\<lparr>e_completed := c\<rparr>] @ (ys @ [?row])"
    by (simp add: trace_state insert_entry_entries ents)
  moreover have "\<forall>e\<in>set (ys @ [?row]). e_id e \<noteq> e_id new"
    using ys fresh by simp
  ultimately show ?case using xs by blast
next
  case (after_finish s i)
  then obtain xs ys c where
    ents: "bayesdb_session_entries (bdb s) = xs @ [new\<lparr>e_completed := c\<rparr>] @ ys"
    and xs: "\<forall>e\<in>set xs. e_id e \<noteq> e_id new" and ys: "\<forall>e\<in>set ys. e_id e \<noteq> e_id new"
    by blast
  let ?f = "\<lambda>e. if e_id e = i then e\<lparr>e_completed := 1\<rparr> else e"
  have id: "e_id (?f e) = e_id e" for e by simp
  have "bayesdb_session_entries (bdb (finish s i)) =
          map ?f xs @ [new\<lparr>e_completed := (if e_id new = i then 1 else c)\<rparr>] @ map ?f ys"
    by (simp add: finish_state ents)
  moreover have "\<forall>e\<in>set (map ?f xs). e_id e \<noteq> e_id new"
    using xs by auto
  moreover have "\<forall>e\<in>set (map ?f ys). e_id e \<noteq> e_id new"
    using ys by auto
  ultimately show ?case by blast
next
  case (after_print s x)
  then show ?case by (simp add: print_def)
qed

text \<open>
  C2, as the specification states it, puts no condition on the state in which the
  completion callback is called. The callback holds the id of its entry, and
  \<open>clear_all_sessions\<close> resets the id sequence: when the log is cleared after the first
  query was recorded and a second query is recorded then, the second entry gets the id
  of the first, and the callback of the first query marks the second entry completed.
\<close>

theorem completion_callback_marks_reused_id:
  "bql_trace J_ex tr_ex ''SELECT 1;'' (PyDict []) 5 = (tr_one, cb_one)
   \<and> bayesdb_session_entries (bdb tr_one) =
       [\<lparr>e_id = 1, e_session_id = 1, e_time = 5, e_type = ''bql'', e_data = ''SELECT 1;{}'',
         e_completed = 0\<rparr>]
   \<and> tr_reused = fst (sql_trace J_ex (clear_all_sessions tr_one) ''SELECT 2;'' (PyDict []) 7)
   \<and> bayesdb_session_entries (bdb tr_reused) =
       [\<lparr>e_id = 1, e_session_id = 1, e_time = 7, e_type = ''sql'', e_data = ''SELECT 2;{}'',
         e_completed = 0\<rparr>]
   \<and> bayesdb_session_entries (bdb (cb_one tr_reused)) =
       [\<lparr>e_id = 1, e_session_id = 1, e_time = 7, e_type = ''sql'', e_data = ''SELECT 2;{}'',
         e_completed = 1\<rparr>]"
proof (intro conjI)
  show "bql_trace J_ex tr_ex ''SELECT 1;'' (PyDict []) 5 = (tr_one, cb_one)"
    by (simp add: tr_one_def cb_one_def)
  show "bayesdb_session_entries (bdb tr_one) =
       [\<lparr>e_id = 1, e_session_id = 1, e_time = 5, e_type = ''bql'', e_data = ''SELECT 1;{}'',
         e_completed = 0\<rparr>]"
    by (simp add: tr_one_eq)
  show "tr_reused = fst (sql_trace J_ex (clear_all_sessions tr_one) ''SELECT 2;'' (PyDict []) 7)"
    by (rule tr_reused_def)
  show "bayesdb_session_entries (bdb tr_reused) =
       [\<lparr>e_id = 1, e_session_id = 1, e_time = 7, e_type = ''sql'', e_data = ''SELECT 2;{}'',
         e_completed = 0\<rparr>]"
    by (rule tr_reused_entries)
  show "bayesdb_session_entries (bdb (cb_one tr_reused)) =
       [\<lparr>e_id = 1, e_session_id = 1, e_time = 7, e_type = ''sql'', e_data = ''SELECT 2;{}'',
         e_completed = 1\<rparr>]"
    by (simp add: cb_one_eq finish_state tr_reused_entries)
qed

text \<open>
  C2, amended. Let a trace callback create an entry and return the state \<open>tr'\<close> and the
  completion callback \<open>cb\<close>. Called in \<open>tr'\<close>, or in any state reached from \<open>tr'\<close> by further
  trace callbacks, completion callbacks and printing, with no \<open>clear_all_sessions\<close> in
  between, \<open>cb\<close> sets the \<open>completed\<close> column of exactly that entry to 1 and changes nothing
  else: the entry is in the table, no other row has its id, and the state after the call
  is the state before it with that one column updated, so every other entry row, every
  session row and the current session id stay as they are. In every state whatsoever
  \<open>cb\<close> changes only the \<open>completed\<close> column of rows that carry the entry's id.
\<close>

theorem completion_callback_frame:
  assumes "trace J tr ty q b t = (tr', cb)"
  shows "\<exists>new. bayesdb_session_entries (bdb tr') = bayesdb_session_entries (bdb tr) @ [new]
           \<and> e_completed new = 0
           \<and> bayesdb_session_entries (bdb (cb tr')) =
               bayesdb_session_entries (bdb tr) @ [new\<lparr>e_completed := 1\<rparr>]
           \<and> bayesdb_session (bdb (cb tr')) = bayesdb_session (bdb tr')
           \<and> current_session_id (cb tr') = current_session_id tr'
           \<and> cb tr' = tr'\<lparr>bdb := (bdb tr')\<lparr>bayesdb_session_entries :=
                          bayesdb_session_entries (bdb tr) @ [new\<lparr>e_completed := 1\<rparr>]\<rparr>\<rparr>
           \<and> (\<forall>s. later_state tr' s \<longrightarrow>
                (\<exists>xs ys c. bayesdb_session_entries (bdb s) = xs @ [new\<lparr>e_completed := c\<rparr>] @ ys
                   \<and> (\<forall>e\<in>set xs. e_id e \<noteq> e_id new) \<and> (\<forall>e\<in>set ys. e_id e \<noteq> e_id new)
                   \<and> cb s = s\<lparr>bdb := (bdb s)\<lparr>bayesdb_session_entries :=
                                 xs @ [new\<lparr>e_completed := 1\<rparr>] @ ys\<rparr>\<rparr>
                   \<and> bayesdb_session (bdb (cb s)) = bayesdb_session (bdb s)
                   \<and> current_session_id (cb s) = current_session_id s))
           \<and> (\<forall>s. cb s = s\<lparr>bdb := (bdb s)\<lparr>bayesdb_session_entries :=
                     map (\<lambda>e. if e_id e = e_id new then e\<lparr>e_completed := 1\<rparr> else e)
                       (bayesdb_session_entries (bdb s))\<rparr>\<rparr>)"
proof -
  let ?old = "bayesdb_session_entries (bdb tr)"
  let ?i = "new_rowid (map e_id ?old) (sqlite_sequence (bdb tr) ''bayesdb_session_entries'')"
  let ?new = "\<lparr>e_id = ?i, e_session_id = session_id tr, e_time = t, e_type = ty,
               e_data = q @ json_dumps J b, e_completed = 0\<rparr>"
  have tr': "tr' = tr\<lparr>bdb := insert_entry (bdb tr) (session_id tr) t ty (q @ json_dumps J b)\<rparr>"
    using assms trace_state [of J tr ty q b t] by simp
  have cb: "cb = (\<lambda>s. finish s ?i)"
    using assms trace_callback [of J tr ty q b t] by simp
  have ents: "bayesdb_session_entries (bdb tr') = ?old @ [?new]"
    by (simp add: tr' insert_entry_entries)
  have other: "\<forall>e\<in>set ?old. e_id e \<noteq> e_id ?new"
    using new_rowid_fresh [of _ "map e_id ?old"] by fastforce
  have marked: "map (\<lambda>e. if e_id e = ?i then e\<lparr>e_completed := 1\<rparr> else e) (?old @ [?new])
                  = ?old @ [?new\<lparr>e_completed := 1\<rparr>]"
    using map_mark_other [of ?old ?i] other by simp
  have now: "cb tr' = tr'\<lparr>bdb := (bdb tr')\<lparr>bayesdb_session_entries :=
                          ?old @ [?new\<lparr>e_completed := 1\<rparr>]\<rparr>\<rparr>"
    unfolding cb finish_state ents marked ..
  have anywhere: "\<forall>s. cb s = s\<lparr>bdb := (bdb s)\<lparr>bayesdb_session_entries :=
                     map (\<lambda>e. if e_id e = e_id ?new then e\<lparr>e_completed := 1\<rparr> else e)
                       (bayesdb_session_entries (bdb s))\<rparr>\<rparr>"
    by (simp add: cb finish_state)
  have later: "\<exists>xs ys c. bayesdb_session_entries (bdb s) = xs @ [?new\<lparr>e_completed := c\<rparr>] @ ys
                   \<and> (\<forall>e\<in>set xs. e_id e \<noteq> e_id ?new) \<and> (\<forall>e\<in>set ys. e_id e \<noteq> e_id ?new)
                   \<and> cb s = s\<lparr>bdb := (bdb s)\<lparr>bayesdb_session_entries :=
                                 xs @ [?new\<lparr>e_completed := 1\<rparr>] @ ys\<rparr>\<rparr>
                   \<and> bayesdb_session (bdb (cb s)) = bayesdb_session (bdb s)
                   \<and> current_session_id (cb s) = current_session_id s"
    if l: "later_state tr' s" for s
  proof -
    from later_state_keeps_entry [OF l ents other]
    obtain xs ys c where
      e: "bayesdb_session_entries (bdb s) = xs @ [?new\<lparr>e_completed := c\<rparr>] @ ys"
      and xs: "\<forall>e\<in>set xs. e_id e \<noteq> e_id ?new" and ys: "\<forall>e\<in>set ys. e_id e \<noteq> e_id ?new"
      by blast
    have m: "map (\<lambda>e. if e_id e = e_id ?new then e\<lparr>e_completed := 1\<rparr> else e)
               (bayesdb_session_entries (bdb s)) = xs @ [?new\<lparr>e_completed := 1\<rparr>] @ ys"
      unfolding e by (rule map_mark_around [OF xs ys])
    have c1: "cb s = s\<lparr>bdb := (bdb s)\<lparr>bayesdb_session_entries :=
                                 xs @ [?new\<lparr>e_completed := 1\<rparr>] @ ys\<rparr>\<rparr>"
      using anywhere m by simp
    have c2: "bayesdb_session (bdb (cb s)) = bayesdb_session (bdb s)"
      by (simp add: cb finish_state)
    have c3: "current_session_id (cb s) = current_session_id s"
      by (simp add: cb finish_state current_session_id_def)
    from e xs ys c1 c2 c3 show ?thesis by blast
  qed
  have c4: "bayesdb_session_entries (bdb (cb tr')) = ?old @ [?new\<lparr>e_completed := 1\<rparr>]"
    by (simp add: now)
  have c5: "bayesdb_session (bdb (cb tr')) = bayesdb_session (bdb tr')"
    by (simp add: cb finish_state)
  have c6: "current_session_id (cb tr') = current_session_id tr'"
    by (simp add: cb finish_state current_session_id_def)
  have c0: "e_completed ?new = 0" by simp
  show ?thesis
  proof (intro exI [of _ ?new] conjI allI impI)
    show "bayesdb_session_entries (bdb tr') = ?old @ [?new]" by (rule ents)
    show "e_completed ?new = 0" by (rule c0)
    show "bayesdb_session_entries (bdb (cb tr')) = ?old @ [?new\<lparr>e_completed := 1\<rparr>]" by (rule c4)
    show "bayesdb_session (bdb (cb tr')) = bayesdb_session (bdb tr')" by (rule c5)
    show "current_session_id (cb tr') = current_session_id tr'" by (rule c6)
    show "cb tr' = tr'\<lparr>bdb := (bdb tr')\<lparr>bayesdb_session_entries :=
                          ?old @ [?new\<lparr>e_completed := 1\<rparr>]\<rparr>\<rparr>" by (rule now)
    show "\<exists>xs ys c. bayesdb_session_entries (bdb s) = xs @ [?new\<lparr>e_completed := c\<rparr>] @ ys
                   \<and> (\<forall>e\<in>set xs. e_id e \<noteq> e_id ?new) \<and> (\<forall>e\<in>set ys. e_id e \<noteq> e_id ?new)
                   \<and> cb s = s\<lparr>bdb := (bdb s)\<lparr>bayesdb_session_entries :=
                                 xs @ [?new\<lparr>e_completed := 1\<rparr>] @ ys\<rparr>\<rparr>
                   \<and> bayesdb_session (bdb (cb s)) = bayesdb_session (bdb s)
                   \<and> current_session_id (cb s) = current_session_id s"
      if "later_state tr' s" for s using that by (rule later)
    show "cb s = s\<lparr>bdb := (bdb s)\<lparr>bayesdb_session_entries :=
                     map (\<lambda>e. if e_id e = e_id ?new then e\<lparr>e_completed := 1\<rparr> else e)
                       (bayesdb_session_entries (bdb s))\<rparr>\<rparr>" for s
      using anywhere by blast
  qed
qed

theorem completion_callback_frame_witness:
  "trace J_ex tr_one ''sql'' ''SELECT 2;'' (PyList [PyInt 7]) 7 = (tr_two, cb_two)
   \<and> later_state tr_two tr_three
   \<and> bayesdb_session_entries (bdb tr_three) =
     [\<lparr>e_id = 1, e_session_id = 1, e_time = 5, e_type = ''bql'',
       e_data = ''SELECT 1;{}'', e_completed = 0\<rparr>,
      \<lparr>e_id = 2, e_session_id = 1, e_time = 7, e_type = ''sql'',
       e_data = ''SELECT 2;[7]'', e_completed = 0\<rparr>,
      \<lparr>e_id = 3, e_session_id = 1, e_time = 9, e_type = ''bql'',
       e_data = ''SELECT 3;{}'', e_completed = 1\<rparr>]
   \<and> cb_two tr_three = tr_three\<lparr>bdb := (bdb tr_three)\<lparr>bayesdb_session_entries :=
     [\<lparr>e_id = 1, e_session_id = 1, e_time = 5, e_type = ''bql'',
       e_data = ''SELECT 1;{}'', e_completed = 0\<rparr>,
      \<lparr>e_id = 2, e_session_id = 1, e_time = 7, e_type = ''sql'',
       e_data = ''SELECT 2;[7]'', e_completed = 1\<rparr>,
      \<lparr>e_id = 3, e_session_id = 1, e_time = 9, e_type = ''bql'',
       e_data = ''SELECT 3;{}'', e_completed = 1\<rparr>]\<rparr>\<rparr>"
proof -
  have run: "trace J_ex tr_one ''sql'' ''SELECT 2;'' (PyList [PyInt 7]) 7 = (tr_two, cb_two)"
    by (simp add: tr_two_def cb_two_def sql_trace_def)
  have l: "later_state tr_two tr_three"
    unfolding tr_three_def bql_trace_def
    by (intro later_state.after_finish later_state.after_trace later_state.here)
  from completion_callback_frame [OF run] obtain new where
    n: "bayesdb_session_entries (bdb tr_two) = bayesdb_session_entries (bdb tr_one) @ [new]"
    and f: "\<forall>s. later_state tr_two s \<longrightarrow>
                (\<exists>xs ys c. bayesdb_session_entries (bdb s) = xs @ [new\<lparr>e_completed := c\<rparr>] @ ys
                   \<and> (\<forall>e\<in>set xs. e_id e \<noteq> e_id new) \<and> (\<forall>e\<in>set ys. e_id e \<noteq> e_id new)
                   \<and> cb_two s = s\<lparr>bdb := (bdb s)\<lparr>bayesdb_session_entries :=
                                 xs @ [new\<lparr>e_completed := 1\<rparr>] @ ys\<rparr>\<rparr>
                   \<and> bayesdb_session (bdb (cb_two s)) = bayesdb_session (bdb s)
                   \<and> current_session_id (cb_two s) = current_session_id s)"
    by blast
  from f l obtain xs ys c where
    e: "bayesdb_session_entries (bdb tr_three) = xs @ [new\<lparr>e_completed := c\<rparr>] @ ys"
    and c: "cb_two tr_three = tr_three\<lparr>bdb := (bdb tr_three)\<lparr>bayesdb_session_entries :=
                                 xs @ [new\<lparr>e_completed := 1\<rparr>] @ ys\<rparr>\<rparr>"
    by blast
  have "cb_two tr_three = tr_three\<lparr>bdb := (bdb tr_three)\<lparr>bayesdb_session_entries :=
     [\<lparr>e_id = 1, e_session_id = 1, e_time = 5, e_type = ''bql'',
       e_data = ''SELECT 1;{}'', e_completed = 0\<rparr>,
      \<lparr>e_id = 2, e_session_id = 1, e_time = 7, e_type = ''sql'',
       e_data = ''SELECT 2;[7]'', e_completed = 1\<rparr>,
      \<lparr>e_id = 3, e_session_id = 1, e_time = 9, e_type = ''bql'',
       e_data = ''SELECT 3;{}'', e_completed = 1\<rparr>]\<rparr>\<rparr>"
    by (simp add: cb_two_eq finish_state tr_three_entries)
  then show ?thesis using run l tr_three_entries by simp
qed

end
